theory Spec2Isabelle
  imports Complex_Main "HOL-Library.Multiset"
begin

section \<open>The workout dashboard's data pipeline (SquashAnalysis.tsx)\<close>

text \<open>
  The component \<open>WorkoutAnalysis\<close> loads a CSV export once, keeps the rows of the two
  workout types Squash and Hiking, turns each into a record, sorts the records and
  computes one block of statistics per workout type. This theory embeds that pipeline,
  \<open>formatDuration\<close> and \<open>fetchData\<close>, as HOL functions.

  Conventions of the embedding:
  \<^item> A JavaScript number is \<open>Fin n\<close> for an integer \<open>n\<close>, or \<open>NaN\<close>. Integer arithmetic
    of JavaScript is exact below \<open>2^53\<close>; fractional cells and larger magnitudes are
    outside the model.
  \<^item> The rows are what the CSV reader hands over (\<open>header: true, dynamicTyping: true\<close>):
    per column a number, a text, \<open>null\<close> for an empty cell or \<open>undefined\<close> for a
    cell the line does not have.
  \<^item> An exception is a value \<open>Inl e\<close>; the \<open>try/catch\<close> around the body of
    \<open>fetchData\<close> is the case distinction on it.
\<close>

subsection \<open>JavaScript numbers\<close>

datatype jsnum = Fin int | NaN

fun jsAdd :: "jsnum \<Rightarrow> jsnum \<Rightarrow> jsnum" where
  "jsAdd (Fin a) (Fin b) = Fin (a + b)"
| "jsAdd _ _ = NaN"

fun jsSub :: "jsnum \<Rightarrow> jsnum \<Rightarrow> jsnum" where
  "jsSub (Fin a) (Fin b) = Fin (a - b)"
| "jsSub _ _ = NaN"

fun jsMul :: "jsnum \<Rightarrow> jsnum \<Rightarrow> jsnum" where
  "jsMul (Fin a) (Fin b) = Fin (a * b)"
| "jsMul _ _ = NaN"

text \<open>The remainder \<open>a % b\<close> of JavaScript takes the sign of the dividend.\<close>

definition jsRem :: "int \<Rightarrow> int \<Rightarrow> int" where
  "jsRem a b = sgn a * (\<bar>a\<bar> mod \<bar>b\<bar>)"

subsection \<open>Numbers as text\<close>

definition digitChar :: "nat \<Rightarrow> char" where
  "digitChar d = ''0123456789'' ! d"

fun showNat :: "nat \<Rightarrow> string" where
  "showNat n = (if n < 10 then [digitChar n] else showNat (n div 10) @ [digitChar (n mod 10)])"

declare showNat.simps [simp del]

definition showInt :: "int \<Rightarrow> string" where
  "showInt i = (if i < 0 then CHR ''-'' # showNat (nat (- i)) else showNat (nat i))"

text \<open>\<open>`${x}`\<close> for a number \<open>x\<close>.\<close>

fun showNum :: "jsnum \<Rightarrow> string" where
  "showNum (Fin i) = showInt i"
| "showNum NaN = ''NaN''"

subsection \<open>formatDuration\<close>

text \<open>
  \<^verbatim>\<open>
  const formatDuration = (minutes: number): string => {
    const hours = Math.floor(minutes / 60);
    const mins = minutes % 60;
    return `${hours}h ${mins}m`;
  };
  \<close>
\<close>

fun formatDuration :: "jsnum \<Rightarrow> string" where
  "formatDuration (Fin minutes) =
     (let hours = minutes div 60;
          mins = jsRem minutes 60
      in showInt hours @ ''h '' @ showInt mins @ ''m'')"
| "formatDuration NaN = showNum NaN @ ''h '' @ showNum NaN @ ''m''"

subsection \<open>String.split and parseInt\<close>

text \<open>\<open>s.split(c)\<close> for a one-character separator: never empty, \<open>"".split(":")\<close> is \<open>[""]\<close>.\<close>

fun split_str :: "char \<Rightarrow> string \<Rightarrow> string list" where
  "split_str c [] = [[]]"
| "split_str c (x # xs) =
     (if x = c then [] # split_str c xs
      else (case split_str c xs of
              [] \<Rightarrow> [[x]]
            | p # ps \<Rightarrow> (x # p) # ps))"

fun indexOf :: "char \<Rightarrow> string \<Rightarrow> nat option" where
  "indexOf c [] = None"
| "indexOf c (x # xs) = (if c = x then Some 0 else map_option Suc (indexOf c xs))"

definition digitOf :: "char \<Rightarrow> nat option" where
  "digitOf c =
     (case indexOf c ''0123456789abcdef'' of
        Some d \<Rightarrow> Some d
      | None \<Rightarrow> map_option (\<lambda>i. i + 10) (indexOf c ''ABCDEF''))"

definition radixDigit :: "nat \<Rightarrow> char \<Rightarrow> nat option" where
  "radixDigit radix c =
     (case digitOf c of
        Some d \<Rightarrow> (if d < radix then Some d else None)
      | None \<Rightarrow> None)"

definition digitValue :: "nat \<Rightarrow> char \<Rightarrow> nat" where
  "digitValue radix c = (case radixDigit radix c of Some d \<Rightarrow> d | None \<Rightarrow> 0)"

definition isWhiteSpace :: "char \<Rightarrow> bool" where
  "isWhiteSpace c \<longleftrightarrow> c \<in> set [CHR '' '', CHR 0x09, CHR 0x0A, CHR 0x0B, CHR 0x0C, CHR 0x0D]"

definition stripSign :: "string \<Rightarrow> int \<times> string" where
  "stripSign s =
     (case s of
        [] \<Rightarrow> (1, [])
      | c # r \<Rightarrow> (if c = CHR ''-'' then (- 1, r) else if c = CHR ''+'' then (1, r) else (1, s)))"

definition stripRadix :: "string \<Rightarrow> nat \<times> string" where
  "stripRadix s =
     (if take 2 s = ''0x'' \<or> take 2 s = ''0X'' then (16, drop 2 s) else (10, s))"

text \<open>
  \<open>parseInt(s)\<close> with no radix argument: leading white space is skipped, then an
  optional sign, then a prefix \<open>0x\<close> selects radix 16; the longest run of digits is read,
  and no digit at all gives \<open>NaN\<close>.
\<close>

definition parseInt :: "string \<Rightarrow> jsnum" where
  "parseInt s =
     (let (sign, s2) = stripSign (dropWhile isWhiteSpace s);
          (radix, s3) = stripRadix s2;
          ds = takeWhile (\<lambda>c. radixDigit radix c \<noteq> None) s3
      in if ds = [] then NaN
         else Fin (sign * int (foldl (\<lambda>a c. a * radix + digitValue radix c) 0 ds)))"

text \<open>
  An array element that does not exist is \<open>undefined\<close>, and \<open>parseInt(undefined)\<close> reads
  the text \<open>"undefined"\<close>: no digit, \<open>NaN\<close>.
\<close>

definition parseIntAt :: "string list \<Rightarrow> nat \<Rightarrow> jsnum" where
  "parseIntAt parts i = (if i < length parts then parseInt (parts ! i) else NaN)"

subsection \<open>Rows and records\<close>

text \<open>
  A cell of a text column, as the CSV reader types it: a text that looks like a number
  arrives as a number, \<open>true\<close> and \<open>false\<close> as booleans, an empty cell as \<open>null\<close>, and a
  cell missing from a short line is \<open>undefined\<close>.
\<close>

datatype jsval = JUndefined | JNull | JBool bool | JNum int | JStr string

text \<open>A cell of a numeric column: a number, an empty cell, or no cell.\<close>

datatype numcell = Number int | Null | Undefined

datatype month = Jan | Feb | Mar | Apr | May | Jun | Jul | Aug | Sep | Oct | Nov | Dec

text \<open>
  \<open>new Date(row['Start'])\<close>, read in the local time zone: a calendar day, or the invalid
  date that an unreadable cell gives. The day of a date lies between 1 and 31.
\<close>

datatype jsdate = InvalidDate | LocalDate int month nat

text \<open>
  The text that \<open>toLocaleDateString('en-US', { month: 'short', day: 'numeric' })\<close>
  returns: \<open>MonthDay Mar 3\<close> stands for \<open>"Mar 3"\<close>, \<open>InvalidLabel\<close> for \<open>"Invalid Date"\<close>.
\<close>

datatype datelabel = InvalidLabel | MonthDay month nat

record rawrow =
  rWorkoutType :: jsval
  rStart :: jsdate
  rDuration :: jsval
  rActiveEnergy :: numcell
  rAvgHeartRate :: numcell
  rMaxHeartRate :: numcell

record workout =
  date :: datelabel
  duration :: string
  durationMinutes :: jsnum
  calories :: numcell
  avgHeartRate :: numcell
  maxHeartRate :: numcell
  workoutType :: jsval

record stats =
  totalSessions :: nat
  totalDuration :: string
  avgCalories :: jsnum
  statsMaxHeartRate :: jsnum

record state =
  data :: "workout list"
  squashStats :: stats
  hikingStats :: stats

datatype error = TypeError

subsection \<open>Dates\<close>

fun toLocaleDateString :: "jsdate \<Rightarrow> datelabel" where
  "toLocaleDateString InvalidDate = InvalidLabel"
| "toLocaleDateString (LocalDate y m d) = MonthDay m d"

text \<open>Days of the year 2001 before the first of a month.\<close>

fun daysBefore :: "month \<Rightarrow> int" where
  "daysBefore Jan = 0"
| "daysBefore Feb = 31"
| "daysBefore Mar = 59"
| "daysBefore Apr = 90"
| "daysBefore May = 120"
| "daysBefore Jun = 151"
| "daysBefore Jul = 181"
| "daysBefore Aug = 212"
| "daysBefore Sep = 243"
| "daysBefore Oct = 273"
| "daysBefore Nov = 304"
| "daysBefore Dec = 334"

text \<open>
  \<open>new Date(label).getTime()\<close>. The text has no year; V8 (Chrome, Node) reads a month
  and a day as that day of the year 2001, and a day past the end of the month runs over
  into the next month. The time is counted here in days since the last day of 2000,
  which orders the labels as the milliseconds do. \<open>"Invalid Date"\<close> gives \<open>NaN\<close>.
\<close>

fun getTime :: "datelabel \<Rightarrow> jsnum" where
  "getTime InvalidLabel = NaN"
| "getTime (MonthDay m d) = Fin (daysBefore m + int d)"

subsection \<open>Array.prototype.sort\<close>

text \<open>
  The sort of an array is stable, and a comparator result \<open>NaN\<close> counts as 0. The
  model is a stable insertion sort: an element goes in front of the first later element
  that it does not compare greater than.
\<close>

fun sortCompare :: "('a \<Rightarrow> 'a \<Rightarrow> jsnum) \<Rightarrow> 'a \<Rightarrow> 'a \<Rightarrow> int" where
  "sortCompare comparefn x y = (case comparefn x y of Fin v \<Rightarrow> v | NaN \<Rightarrow> 0)"

fun insertBy :: "('a \<Rightarrow> 'a \<Rightarrow> jsnum) \<Rightarrow> 'a \<Rightarrow> 'a list \<Rightarrow> 'a list" where
  "insertBy comparefn x [] = [x]"
| "insertBy comparefn x (y # ys) =
     (if sortCompare comparefn x y > 0 then y # insertBy comparefn x ys else x # y # ys)"

fun sortBy :: "('a \<Rightarrow> 'a \<Rightarrow> jsnum) \<Rightarrow> 'a list \<Rightarrow> 'a list" where
  "sortBy comparefn [] = []"
| "sortBy comparefn (x # xs) = insertBy comparefn x (sortBy comparefn xs)"

subsection \<open>fetchData: rows to records\<close>

text \<open>
  \<^verbatim>\<open>
  const processedData = parseResult.data
    .filter(row => row['Workout Type'] === 'Squash' || row['Workout Type'] === 'Hiking')
    .map(row => {
      const durationParts = row['Duration'].split(':');
      const minutes = parseInt(durationParts[0]) * 60 + parseInt(durationParts[1]);
      return { date: new Date(row['Start']).toLocaleDateString(...), duration: row['Duration'],
               durationMinutes: minutes, calories: row['Active Energy (kcal)'],
               avgHeartRate: row['Avg. Heart Rate (bpm)'],
               maxHeartRate: row['Max. Heart Rate (bpm)'], workoutType: row['Workout Type'] };
    })
    .sort((a, b) => new Date(a.date).getTime() - new Date(b.date).getTime());
  \<close>
\<close>

definition isConfigured :: "rawrow \<Rightarrow> bool" where
  "isConfigured row \<longleftrightarrow>
     rWorkoutType row = JStr ''Squash'' \<or> rWorkoutType row = JStr ''Hiking''"

text \<open>
  \<open>parseInt(durationParts[0]) * 60 + parseInt(durationParts[1])\<close> for the text of a
  duration cell.
\<close>

definition minutesOf :: "string \<Rightarrow> jsnum" where
  "minutesOf s =
     (let durationParts = split_str CHR '':'' s
      in jsAdd (jsMul (parseIntAt durationParts 0) (Fin 60)) (parseIntAt durationParts 1))"

text \<open>
  The callback of \<open>map\<close>. Only a text has a method \<open>split\<close>: on any other duration cell
  the call \<open>row['Duration'].split(':')\<close> throws a TypeError.
\<close>

fun toRecord :: "rawrow \<Rightarrow> error + workout" where
  "toRecord row =
     (case rDuration row of
        JStr s \<Rightarrow>
          Inr \<lparr> date = toLocaleDateString (rStart row),
                duration = s,
                durationMinutes = minutesOf s,
                calories = rActiveEnergy row,
                avgHeartRate = rAvgHeartRate row,
                maxHeartRate = rMaxHeartRate row,
                workoutType = rWorkoutType row \<rparr>
      | _ \<Rightarrow> Inl TypeError)"

text \<open>\<open>map\<close> with a callback that may throw: the first exception ends the whole map.\<close>

fun mapRows :: "rawrow list \<Rightarrow> error + workout list" where
  "mapRows [] = Inr []"
| "mapRows (row # rows) =
     (case toRecord row of
        Inl e \<Rightarrow> Inl e
      | Inr r \<Rightarrow> (case mapRows rows of Inl e \<Rightarrow> Inl e | Inr rs \<Rightarrow> Inr (r # rs)))"

definition compareDates :: "workout \<Rightarrow> workout \<Rightarrow> jsnum" where
  "compareDates a b = jsSub (getTime (date a)) (getTime (date b))"

definition processRows :: "rawrow list \<Rightarrow> error + workout list" where
  "processRows rows =
     (case mapRows (filter isConfigured rows) of
        Inl e \<Rightarrow> Inl e
      | Inr recs \<Rightarrow> Inr (sortBy compareDates recs))"

subsection \<open>fetchData: statistics\<close>

text \<open>
  \<^verbatim>\<open>
  const squashData = processedData.filter(row => row.workoutType === 'Squash');
  if (squashData.length > 0) {
    const totalMinutes = squashData.reduce((acc, row) => acc + row.durationMinutes, 0);
    setSquashStats({
      totalSessions: squashData.length,
      totalDuration: formatDuration(totalMinutes),
      avgCalories: Math.round(squashData.reduce((acc, row) => acc + row.calories, 0) / squashData.length),
      maxHeartRate: Math.max(...squashData.map(row => row.maxHeartRate || 0))
    });
  }
  \<close>
  and the same for Hiking.
\<close>

text \<open>A cell as an operand of \<open>+\<close>: \<open>null\<close> is 0 and \<open>undefined\<close> is \<open>NaN\<close>.\<close>

fun toNumber :: "numcell \<Rightarrow> jsnum" where
  "toNumber (Number n) = Fin n"
| "toNumber Null = Fin 0"
| "toNumber Undefined = NaN"

text \<open>\<open>x || 0\<close>: the cell when it is truthy (a number other than 0), else 0.\<close>

fun orZero :: "numcell \<Rightarrow> int" where
  "orZero (Number n) = (if n \<noteq> 0 then n else 0)"
| "orZero Null = 0"
| "orZero Undefined = 0"

text \<open>\<open>Math.max(x, ...xs)\<close> of at least one number.\<close>

definition mathMax :: "int \<Rightarrow> int list \<Rightarrow> int" where
  "mathMax x xs = fold max xs x"

text \<open>
  \<open>Math.round(s / n)\<close> for a sum \<open>s\<close> and a length \<open>n\<close>: the nearest integer, a half
  going up. The statistics divide by the length of a non-empty array only; \<open>0 / 0\<close>
  is \<open>NaN\<close>, and a quotient by 0 of another sum is not a number of the model.
\<close>

fun mathRoundDiv :: "jsnum \<Rightarrow> nat \<Rightarrow> jsnum" where
  "mathRoundDiv NaN n = NaN"
| "mathRoundDiv (Fin s) n = (if n = 0 then NaN else Fin ((2 * s + int n) div (2 * int n)))"

definition sumMinutes :: "workout list \<Rightarrow> jsnum" where
  "sumMinutes rows = foldl (\<lambda>acc row. jsAdd acc (durationMinutes row)) (Fin 0) rows"

definition sumCalories :: "workout list \<Rightarrow> jsnum" where
  "sumCalories rows = foldl (\<lambda>acc row. jsAdd acc (toNumber (calories row))) (Fin 0) rows"

text \<open>
  The guarded call of the setter: with no record of the workout type the statistics
  stay as they are.
\<close>

fun setStats :: "stats \<Rightarrow> workout list \<Rightarrow> stats" where
  "setStats old [] = old"
| "setStats old (r # rs) =
     (let catData = r # rs;
          totalMinutes = sumMinutes catData
      in \<lparr> totalSessions = length catData,
            totalDuration = formatDuration totalMinutes,
            avgCalories = mathRoundDiv (sumCalories catData) (length catData),
            statsMaxHeartRate =
              Fin (mathMax (orZero (maxHeartRate r)) (map (\<lambda>row. orZero (maxHeartRate row)) rs)) \<rparr>)"

definition ofType :: "string \<Rightarrow> workout list \<Rightarrow> workout list" where
  "ofType t rows = filter (\<lambda>row. workoutType row = JStr t) rows"

definition initialStats :: stats where
  "initialStats =
     \<lparr> totalSessions = 0, totalDuration = ''0h 0m'', avgCalories = Fin 0,
       statsMaxHeartRate = Fin 0 \<rparr>"

definition initialState :: state where
  "initialState = \<lparr> data = [], squashStats = initialStats, hikingStats = initialStats \<rparr>"

text \<open>
  The body of \<open>fetchData\<close> on the parsed rows. An exception anywhere in it is caught,
  logged, and leaves the state as it was.
\<close>

definition fetchData :: "state \<Rightarrow> rawrow list \<Rightarrow> state" where
  "fetchData st rows =
     (case processRows rows of
        Inl e \<Rightarrow> st
      | Inr processedData \<Rightarrow>
          st \<lparr> data := processedData,
               squashStats := setStats (squashStats st) (ofType ''Squash'' processedData),
               hikingStats := setStats (hikingStats st) (ofType ''Hiking'' processedData) \<rparr>)"

subsection \<open>Notions of the specification\<close>



fun spec_absentAsZero :: "numcell \<Rightarrow> int" where
  "spec_absentAsZero (Number n) = n"
| "spec_absentAsZero _ = 0"





subsection \<open>Example rows and records\<close>

definition exampleRow :: "string \<Rightarrow> jsdate \<Rightarrow> jsval \<Rightarrow> numcell \<Rightarrow> numcell \<Rightarrow> rawrow" where
  "exampleRow t start dur cal hr =
     \<lparr> rWorkoutType = JStr t, rStart = start, rDuration = dur, rActiveEnergy = cal,
       rAvgHeartRate = Null, rMaxHeartRate = hr \<rparr>"

definition exampleRecord :: "string \<Rightarrow> jsnum \<Rightarrow> numcell \<Rightarrow> numcell \<Rightarrow> workout" where
  "exampleRecord t mins cal hr =
     \<lparr> date = MonthDay Mar 1, duration = ''1:00'', durationMinutes = mins, calories = cal,
       avgHeartRate = Null, maxHeartRate = hr, workoutType = JStr t \<rparr>"


text \<open>One good Squash row; the same with a second row whose duration cell is empty, and
  with a second row whose duration is a text without digits.\<close>

definition goodRow :: rawrow where
  "goodRow = exampleRow ''Squash'' (LocalDate 2024 Mar 1) (JStr ''1:05'') (Number 300) (Number 150)"

definition batchEmptyDuration :: "rawrow list" where
  "batchEmptyDuration =
     [goodRow, exampleRow ''Squash'' (LocalDate 2024 Mar 2) JNull (Number 200) (Number 170)]"

definition batchTextDuration :: "rawrow list" where
  "batchTextDuration =
     [goodRow, exampleRow ''Squash'' InvalidDate (JStr ''abc'') (Number 200) (Number 170)]"

text \<open>A session on the last day of 2023 followed by one on the first day of 2024.\<close>

definition batchNewYear :: "rawrow list" where
  "batchNewYear =
     [exampleRow ''Squash'' (LocalDate 2023 Dec 31) (JStr ''1:05'') (Number 300) (Number 150),
      exampleRow ''Squash'' (LocalDate 2024 Jan 1) (JStr ''0:45'') (Number 200) (Number 170)]"

text \<open>The three sessions of the specification's ordering example, and its end-to-end rows.\<close>

definition batchMarch :: "rawrow list" where
  "batchMarch =
     [exampleRow ''Squash'' (LocalDate 2024 Mar 3) (JStr ''1:05'') (Number 300) (Number 150),
      exampleRow ''Hiking'' (LocalDate 2024 Mar 1) (JStr ''2:30'') (Number 900) (Number 140),
      exampleRow ''Running'' (LocalDate 2024 Mar 1) (JNum 30) (Number 250) (Number 180),
      exampleRow ''Squash'' (LocalDate 2024 Mar 2) (JStr ''0:45'') (Number 200) (Number 170)]"

text \<open>A row of a workout type that is not configured; its duration cell is a number.\<close>

definition runningRow :: rawrow where
  "runningRow = exampleRow ''Running'' (LocalDate 2024 Mar 1) (JNum 30) (Number 250) (Number 180)"

text \<open>The record of \<open>goodRow\<close>.\<close>

definition goodRecord :: workout where
  "goodRecord =
     \<lparr> date = MonthDay Mar 1, duration = ''1:05'', durationMinutes = Fin 65,
       calories = Number 300, avgHeartRate = Null, maxHeartRate = Number 150,
       workoutType = JStr ''Squash'' \<rparr>"

section \<open>Properties\<close>

subsection \<open>The sort permutes\<close>

lemma mset_insertBy: "mset (insertBy c x xs) = add_mset x (mset xs)"
  by (induction xs) simp_all

lemma mset_sortBy: "mset (sortBy c xs) = mset xs"
  by (induction xs) (simp_all add: mset_insertBy)

lemma set_sortBy: "set (sortBy c xs) = set xs"
  using mset_sortBy [of c xs] by (metis set_mset_mset)

lemma length_sortBy: "length (sortBy c xs) = length xs"
  using mset_sortBy [of c xs] by (metis size_mset)

lemma length_filter_sortBy: "length (filter P (sortBy c xs)) = length (filter P xs)"
proof -
  have "mset (filter P (sortBy c xs)) = mset (filter P xs)"
    by (simp add: mset_sortBy)
  then show ?thesis by (metis size_mset)
qed

subsection \<open>Rows to records\<close>

lemma toRecord_workoutType: "toRecord row = Inr r \<Longrightarrow> workoutType r = rWorkoutType row"
  by (auto split: jsval.splits)

lemma mapRows_length: "mapRows rows = Inr recs \<Longrightarrow> length recs = length rows"
  by (induction rows arbitrary: recs) (auto split: sum.splits)

lemma mapRows_set:
  "mapRows rows = Inr recs \<Longrightarrow> r \<in> set recs \<Longrightarrow> \<exists>row \<in> set rows. toRecord row = Inr r"
  by (induction rows arbitrary: recs) (auto split: sum.splits)

lemma mapRows_map: "mapRows rows = Inr recs \<Longrightarrow> map Inr recs = map toRecord rows"
  by (induction rows arbitrary: recs) (auto split: sum.splits)

lemma mapRows_ok:
  "\<forall>row \<in> set rows. \<exists>s. rDuration row = JStr s \<Longrightarrow> \<exists>recs. mapRows rows = Inr recs"
  by (induction rows) auto

lemma mapRows_throws:
  "row \<in> set rows \<Longrightarrow> \<forall>s. rDuration row \<noteq> JStr s \<Longrightarrow> mapRows rows = Inl TypeError"
  by (induction rows) (auto split: sum.splits jsval.splits)

lemma processRows_origin:
  assumes "processRows rows = Inr recs" and "r \<in> set recs"
  shows "\<exists>row \<in> set rows. isConfigured row \<and> toRecord row = Inr r"
proof -
  from assms(1) obtain ms where ms: "mapRows (filter isConfigured rows) = Inr ms"
    and recs: "recs = sortBy compareDates ms"
    by (auto simp: processRows_def split: sum.splits)
  from assms(2) recs have "r \<in> set ms" by (simp add: set_sortBy)
  with ms obtain row where "row \<in> set (filter isConfigured rows)" "toRecord row = Inr r"
    using mapRows_set by blast
  then show ?thesis by auto
qed

lemma processRows_configured:
  assumes "processRows rows = Inr recs" and "r \<in> set recs"
  shows "workoutType r = JStr ''Squash'' \<or> workoutType r = JStr ''Hiking''"
proof -
  obtain row where "isConfigured row" "toRecord row = Inr r"
    using processRows_origin [OF assms] by blast
  then show ?thesis
    using toRecord_workoutType [of row r] by (auto simp: isConfigured_def)
qed

lemma processRows_filter: "processRows (filter isConfigured rows) = processRows rows"
  by (simp add: processRows_def)

subsection \<open>Sums and maxima in closed form\<close>






lemma orZero_spec: "orZero c = spec_absentAsZero c"
  by (cases c) simp_all

lemma mathMax_Max: "mathMax x xs = Max (set (x # xs))"
  by (simp only: mathMax_def Max.set_eq_fold)

lemma setStats_nonempty:
  "recs \<noteq> [] \<Longrightarrow>
   setStats old recs =
     \<lparr> totalSessions = length recs,
       totalDuration = formatDuration (sumMinutes recs),
       avgCalories = mathRoundDiv (sumCalories recs) (length recs),
       statsMaxHeartRate = Fin (Max ((\<lambda>r. orZero (maxHeartRate r)) ` set recs)) \<rparr>"
  by (cases recs) (simp_all add: Let_def mathMax_Max)

lemma totalSessions_setStats: "totalSessions (setStats initialStats recs) = length recs"
  by (cases recs) (simp_all add: initialStats_def Let_def)


subsection \<open>Texts of digits\<close>

lemma split_str_notin: "c \<notin> set p \<Longrightarrow> split_str c p = [p]"
  by (induction p) auto

lemma split_str_append: "c \<notin> set p \<Longrightarrow> split_str c (p @ c # rest) = p # split_str c rest"
  by (induction p) auto

lemma split_str_nonempty: "split_str c s \<noteq> []"
  by (induction s) (auto split: list.splits)

lemma split_str_Cons:
  "split_str c s = p # ps \<Longrightarrow>
   c \<notin> set p \<and> (ps = [] \<longrightarrow> s = p)
   \<and> (ps \<noteq> [] \<longrightarrow> (\<exists>s'. s = p @ c # s' \<and> split_str c s' = ps))"
proof (induction s arbitrary: p ps)
  case Nil
  then show ?case by auto
next
  case (Cons x xs)
  show ?case
  proof (cases "x = c")
    case True
    with Cons.prems show ?thesis by (auto simp: split_str_nonempty)
  next
    case False
    obtain q qs where q: "split_str c xs = q # qs"
      using split_str_nonempty [of c xs] by (cases "split_str c xs") auto
    from Cons.IH [OF q] Cons.prems False q show ?thesis by auto
  qed
qed







subsection \<open>The state after loading\<close>

lemma fetchData_Inr:
  "processRows rows = Inr pd \<Longrightarrow>
   fetchData st rows =
     st \<lparr> data := pd,
          squashStats := setStats (squashStats st) (ofType ''Squash'' pd),
          hikingStats := setStats (hikingStats st) (ofType ''Hiking'' pd) \<rparr>"
  by (simp add: fetchData_def)

lemma fetchData_Inl: "processRows rows = Inl e \<Longrightarrow> fetchData st rows = st"
  by (simp add: fetchData_def)

lemma ofType_empty:
  assumes "processRows rows = Inr pd" and "\<forall>row \<in> set rows. rWorkoutType row \<noteq> JStr t"
  shows "ofType t pd = []"
proof -
  have "workoutType r \<noteq> JStr t" if rin: "r \<in> set pd" for r
  proof -
    obtain row where "row \<in> set rows" "toRecord row = Inr r"
      using processRows_origin [OF assms(1) rin] by blast
    then show ?thesis using toRecord_workoutType [of row r] assms(2) by auto
  qed
  then show ?thesis by (simp add: ofType_def filter_empty_conv)
qed

lemma processRows_drop:
  "\<not> isConfigured row \<Longrightarrow> processRows (rows1 @ row # rows2) = processRows (rows1 @ rows2)"
  by (simp add: processRows_def)

lemma processRows_ok:
  assumes "\<forall>row \<in> set rows. isConfigured row \<longrightarrow> (\<exists>s. rDuration row = JStr s)"
  shows "\<exists>recs. processRows rows = Inr recs
           \<and> mset (map Inr recs) = mset (map toRecord (filter isConfigured rows))"
proof -
  have "\<forall>row \<in> set (filter isConfigured rows). \<exists>s. rDuration row = JStr s"
    using assms by simp
  then obtain ms where ms: "mapRows (filter isConfigured rows) = Inr ms"
    using mapRows_ok by blast
  have "mset (map Inr (sortBy compareDates ms)) = mset (map Inr ms)"
    by (simp add: mset_sortBy)
  also have "\<dots> = mset (map toRecord (filter isConfigured rows))"
    by (simp only: mapRows_map [OF ms])
  finally show ?thesis by (simp add: processRows_def ms)
qed

lemma processRows_throws:
  assumes "row \<in> set rows" "isConfigured row" "\<forall>s. rDuration row \<noteq> JStr s"
  shows "processRows rows = Inl TypeError"
proof -
  have "row \<in> set (filter isConfigured rows)" using assms by simp
  then have "mapRows (filter isConfigured rows) = Inl TypeError"
    using assms(3) by (rule mapRows_throws)
  then show ?thesis by (simp add: processRows_def)
qed

lemma data_goodRow: "data (fetchData initialState [goodRow]) = [goodRecord]"
  by code_simp

lemma processRows_batchMarch:
  "processRows batchMarch = Inr (data (fetchData initialState batchMarch))"
  by code_simp

section \<open>The claims\<close>

subsection \<open>Average calories\<close>




subsection \<open>Maximum heart rate\<close>

text \<open>
  C6: for a sequence of records of one category, the aggregated maximum heart rate is
  the maximum over the records of the field, an absent value counting as 0; and when
  the field is absent in every record (or there is no record), the statistics loaded
  into the initial state report 0.
\<close>

theorem maxHeartRate_absent_as_zero:
  "(recs \<noteq> [] \<longrightarrow>
      statsMaxHeartRate (setStats old recs)
      = Fin (Max ((\<lambda>r. spec_absentAsZero (maxHeartRate r)) ` set recs)))
   \<and> ((\<forall>r \<in> set recs. maxHeartRate r = Null \<or> maxHeartRate r = Undefined) \<longrightarrow>
      statsMaxHeartRate (setStats initialStats recs) = Fin 0)"
proof (intro conjI impI)
  assume "recs \<noteq> []"
  then show "statsMaxHeartRate (setStats old recs)
      = Fin (Max ((\<lambda>r. spec_absentAsZero (maxHeartRate r)) ` set recs))"
    by (simp add: setStats_nonempty orZero_spec)
next
  assume absent: "\<forall>r \<in> set recs. maxHeartRate r = Null \<or> maxHeartRate r = Undefined"
  show "statsMaxHeartRate (setStats initialStats recs) = Fin 0"
  proof (cases "recs = []")
    case True
    then show ?thesis by (simp add: initialStats_def)
  next
    case False
    have "\<forall>r \<in> set recs. orZero (maxHeartRate r) = 0" using absent by auto
    then have "(\<lambda>r. orZero (maxHeartRate r)) ` set recs = (\<lambda>r. 0) ` set recs"
      by (intro image_cong) simp_all
    also have "\<dots> = {0}" using False by (simp add: image_constant_conv)
    finally have "(\<lambda>r. orZero (maxHeartRate r)) ` set recs = {0}" .
    then show ?thesis by (simp add: setStats_nonempty [OF False])
  qed
qed

theorem maxHeartRate_absent_as_zero_witness:
  "[exampleRecord ''Squash'' (Fin 60) Null (Number 150),
    exampleRecord ''Squash'' (Fin 60) Null Null,
    exampleRecord ''Squash'' (Fin 60) Null (Number 170)] \<noteq> []
   \<and> statsMaxHeartRate (setStats initialStats
       [exampleRecord ''Squash'' (Fin 60) Null (Number 150),
        exampleRecord ''Squash'' (Fin 60) Null Null,
        exampleRecord ''Squash'' (Fin 60) Null (Number 170)]) = Fin 170
   \<and> maxHeartRate (exampleRecord ''Hiking'' (Fin 60) Null Null) = Null
   \<and> maxHeartRate (exampleRecord ''Hiking'' (Fin 60) Null Undefined) = Undefined
   \<and> statsMaxHeartRate (setStats initialStats
       [exampleRecord ''Hiking'' (Fin 60) Null Null,
        exampleRecord ''Hiking'' (Fin 60) Null Undefined]) = Fin 0"
  using maxHeartRate_absent_as_zero
    [of "[exampleRecord ''Squash'' (Fin 60) Null (Number 150),
          exampleRecord ''Squash'' (Fin 60) Null Null,
          exampleRecord ''Squash'' (Fin 60) Null (Number 170)]" initialStats]
    maxHeartRate_absent_as_zero
    [of "[exampleRecord ''Hiking'' (Fin 60) Null Null,
          exampleRecord ''Hiking'' (Fin 60) Null Undefined]" initialStats]
  by (simp add: exampleRecord_def)

subsection \<open>Order of the records\<close>



subsection \<open>Malformed rows\<close>

text \<open>
  C2, as the specification states it: a batch with one row with a malformed field
  (unparseable duration, unparseable date, unrecognised category) among valid rows loses
  only that row and still produces output for the others; one row's parse error never
  aborts the batch. In the code a duration cell that is not a text (here an empty cell)
  makes \<open>split\<close> throw, and the one \<open>try/catch\<close> around the whole body leaves the state
  as it was: nothing is published for \<open>batchEmptyDuration\<close>, although its first row
  alone gives a record. And a row whose duration text has no digits, or whose date is
  invalid, is not excluded: in \<open>batchTextDuration\<close> it stays, with \<open>NaN\<close> minutes and
  the label of an invalid date.
\<close>

theorem row_errors_counterexample:
  "fetchData initialState batchEmptyDuration = initialState
   \<and> map durationMinutes (data (fetchData initialState [goodRow])) = [Fin 65]
   \<and> map durationMinutes (data (fetchData initialState batchTextDuration)) = [Fin 65, NaN]
   \<and> map date (data (fetchData initialState batchTextDuration)) = [MonthDay Mar 1, InvalidLabel]"
proof -
  have a: "fetchData initialState batchEmptyDuration = initialState"
    by code_simp
  have b: "map durationMinutes (data (fetchData initialState [goodRow])) = [Fin 65]"
    by code_simp
  have c: "map durationMinutes (data (fetchData initialState batchTextDuration)) = [Fin 65, NaN]"
    by code_simp
  have d: "map date (data (fetchData initialState batchTextDuration)) = [MonthDay Mar 1, InvalidLabel]"
    by code_simp
  from a b c d show ?thesis by simp
qed

text \<open>
  C2, amended: rows of a category that is not configured are excluded, and when every
  Squash or Hiking row has a text in its duration cell the batch is loaded with exactly
  one record for each of these rows, whatever the duration text and the date are (an
  unparseable duration text or date does not exclude the row). When some Squash or Hiking
  row has a duration cell that is not a text, the map throws a TypeError, the error is
  caught around the whole body, and the state stays as it was: no row of the batch is
  published.
\<close>

theorem row_errors_policy:
  "((\<forall>row \<in> set rows. isConfigured row \<longrightarrow> (\<exists>s. rDuration row = JStr s)) \<longrightarrow>
      (\<exists>recs. processRows rows = Inr recs \<and> data (fetchData st rows) = recs
         \<and> mset (map Inr recs) = mset (map toRecord (filter isConfigured rows))))
   \<and> ((\<exists>row \<in> set rows. isConfigured row \<and> (\<forall>s. rDuration row \<noteq> JStr s)) \<longrightarrow>
      processRows rows = Inl TypeError \<and> fetchData st rows = st)"
proof (intro conjI impI)
  assume "\<forall>row \<in> set rows. isConfigured row \<longrightarrow> (\<exists>s. rDuration row = JStr s)"
  then obtain recs where pr: "processRows rows = Inr recs"
    and ms: "mset (map Inr recs) = mset (map toRecord (filter isConfigured rows))"
    using processRows_ok by blast
  have "data (fetchData st rows) = recs" by (simp add: fetchData_Inr [OF pr])
  with pr ms show "\<exists>recs. processRows rows = Inr recs \<and> data (fetchData st rows) = recs
         \<and> mset (map Inr recs) = mset (map toRecord (filter isConfigured rows))"
    by blast
next
  assume "\<exists>row \<in> set rows. isConfigured row \<and> (\<forall>s. rDuration row \<noteq> JStr s)"
  then obtain row where "row \<in> set rows" "isConfigured row" "\<forall>s. rDuration row \<noteq> JStr s"
    by blast
  then show "processRows rows = Inl TypeError" by (rule processRows_throws)
  then show "fetchData st rows = st" by (rule fetchData_Inl)
qed

theorem row_errors_policy_witness:
  "length (data (fetchData initialState batchTextDuration)) = 2
   \<and> map durationMinutes (data (fetchData initialState batchTextDuration)) = [Fin 65, NaN]
   \<and> processRows batchEmptyDuration = Inl TypeError
   \<and> fetchData initialState batchEmptyDuration = initialState"
proof -
  have t: "\<forall>row \<in> set batchTextDuration. isConfigured row \<longrightarrow> (\<exists>s. rDuration row = JStr s)"
    by (simp add: batchTextDuration_def goodRow_def exampleRow_def)
  have e: "\<exists>row \<in> set batchEmptyDuration. isConfigured row \<and> (\<forall>s. rDuration row \<noteq> JStr s)"
    by (simp add: batchEmptyDuration_def goodRow_def exampleRow_def isConfigured_def)
  have d: "map durationMinutes (data (fetchData initialState batchTextDuration)) = [Fin 65, NaN]"
    by code_simp
  have l: "length (filter isConfigured batchTextDuration) = 2"
    by (simp add: batchTextDuration_def goodRow_def exampleRow_def isConfigured_def)
  from row_errors_policy [of batchTextDuration initialState] t
  obtain recs where "data (fetchData initialState batchTextDuration) = recs"
    and "mset (map Inr recs) = mset (map toRecord (filter isConfigured batchTextDuration))"
    by blast
  then have "length (data (fetchData initialState batchTextDuration))
             = length (filter isConfigured batchTextDuration)"
    by (metis length_map size_mset)
  with l have n: "length (data (fetchData initialState batchTextDuration)) = 2" by simp
  from row_errors_policy [of batchEmptyDuration initialState] e
  have "processRows batchEmptyDuration = Inl TypeError
        \<and> fetchData initialState batchEmptyDuration = initialState"
    by blast
  with n d show ?thesis by simp
qed

subsection \<open>Chronological order\<close>

text \<open>
  C3: the output is sorted ascending by the calendar date of the records, stably. The
  comparator reads the date back from the month-and-day label, which has no year. The
  three sessions of March in \<open>batchMarch\<close> do come out as Mar 1, Mar 2, Mar 3; but
  for a session on 31 December 2023 followed by one on 1 January 2024 the code puts the
  session of 2024 first.
\<close>

theorem year_not_compared:
  "map date (data (fetchData initialState batchNewYear)) = [MonthDay Jan 1, MonthDay Dec 31]
   \<and> map calories (data (fetchData initialState batchNewYear)) = [Number 200, Number 300]
   \<and> map date (data (fetchData initialState batchMarch))
       = [MonthDay Mar 1, MonthDay Mar 2, MonthDay Mar 3]"
proof -
  have a: "map date (data (fetchData initialState batchNewYear)) = [MonthDay Jan 1, MonthDay Dec 31]"
    by code_simp
  have b: "map calories (data (fetchData initialState batchNewYear)) = [Number 200, Number 300]"
    by code_simp
  have c: "map date (data (fetchData initialState batchMarch))
       = [MonthDay Mar 1, MonthDay Mar 2, MonthDay Mar 3]"
    by code_simp
  from a b c show ?thesis by simp
qed

subsection \<open>Durations\<close>



text \<open>
  C9: a Squash or Hiking row whose duration text splits at \<open>:\<close> into more than two
  parts is neither rejected nor skipped: it gives a record, whose minutes are those of
  the first two parts, \<open>parseInt(p0) * 60 + parseInt(p1)\<close>, the same as for the duration
  text cut after the second part.
\<close>

theorem extra_duration_parts_ignored:
  assumes "rDuration row = JStr s" and "isConfigured row"
    and "split_str CHR '':'' s = p0 # p1 # p2 # rest"
  shows "\<exists>r. processRows [row] = Inr [r]
           \<and> durationMinutes r = jsAdd (jsMul (parseInt p0) (Fin 60)) (parseInt p1)
           \<and> durationMinutes r = minutesOf (p0 @ CHR '':'' # p1)"
proof -
  have m: "minutesOf s = jsAdd (jsMul (parseInt p0) (Fin 60)) (parseInt p1)"
    by (simp add: minutesOf_def assms(3) parseIntAt_def)
  from split_str_Cons [OF assms(3)] obtain s' where
    p0: "CHR '':'' \<notin> set p0" and s': "split_str CHR '':'' s' = p1 # p2 # rest"
    by auto
  from split_str_Cons [OF s'] have p1: "CHR '':'' \<notin> set p1" by simp
  have "split_str CHR '':'' (p0 @ CHR '':'' # p1) = [p0, p1]"
    by (simp add: split_str_append [OF p0] split_str_notin [OF p1])
  then have t: "minutesOf (p0 @ CHR '':'' # p1) = jsAdd (jsMul (parseInt p0) (Fin 60)) (parseInt p1)"
    by (simp add: minutesOf_def parseIntAt_def)
  show ?thesis
    using assms(1,2) m t by (simp add: processRows_def)
qed

theorem extra_duration_parts_ignored_witness:
  "rDuration (exampleRow ''Squash'' (LocalDate 2024 Mar 1) (JStr ''1:05:30'') Null Null)
     = JStr ''1:05:30''
   \<and> isConfigured (exampleRow ''Squash'' (LocalDate 2024 Mar 1) (JStr ''1:05:30'') Null Null)
   \<and> split_str CHR '':'' ''1:05:30'' = [''1'', ''05'', ''30'']
   \<and> (\<exists>r. processRows [exampleRow ''Squash'' (LocalDate 2024 Mar 1) (JStr ''1:05:30'') Null Null]
             = Inr [r]
          \<and> durationMinutes r = Fin 65 \<and> minutesOf ''1:05'' = Fin 65)"
proof -
  have d: "rDuration (exampleRow ''Squash'' (LocalDate 2024 Mar 1) (JStr ''1:05:30'') Null Null)
     = JStr ''1:05:30''"
    by (simp add: exampleRow_def)
  have c: "isConfigured (exampleRow ''Squash'' (LocalDate 2024 Mar 1) (JStr ''1:05:30'') Null Null)"
    by (simp add: exampleRow_def isConfigured_def)
  have s: "split_str CHR '':'' ''1:05:30'' = [''1'', ''05'', ''30'']"
    by simp
  have v: "jsAdd (jsMul (parseInt ''1'') (Fin 60)) (parseInt ''05'') = Fin 65"
    by code_simp
  from extra_duration_parts_ignored [OF d c s] v d c s show ?thesis
    by auto
qed

subsection \<open>Categories\<close>

text \<open>
  C5: with no record of a category the statistics are the zero state: 0 sessions, a
  total duration of 0 minutes shown as \<open>"0h 0m"\<close>, average calories 0 and maximum heart
  rate 0. Nothing is divided: the setter is not called, and a batch without a row of a
  workout type leaves that type's statistics in this state.
\<close>

theorem empty_category_zero_state:
  "setStats initialStats [] =
     \<lparr> totalSessions = 0, totalDuration = ''0h 0m'', avgCalories = Fin 0,
       statsMaxHeartRate = Fin 0 \<rparr>
   \<and> formatDuration (Fin 0) = ''0h 0m''
   \<and> ((\<forall>row \<in> set rows. rWorkoutType row \<noteq> JStr ''Squash'') \<longrightarrow>
        squashStats (fetchData initialState rows) = setStats initialStats [])
   \<and> ((\<forall>row \<in> set rows. rWorkoutType row \<noteq> JStr ''Hiking'') \<longrightarrow>
        hikingStats (fetchData initialState rows) = setStats initialStats [])"
proof -
  have f: "formatDuration (Fin 0) = ''0h 0m''"
    by (simp add: jsRem_def showInt_def showNat.simps digitChar_def)
  have z: "setStats initialStats [] =
     \<lparr> totalSessions = 0, totalDuration = ''0h 0m'', avgCalories = Fin 0,
       statsMaxHeartRate = Fin 0 \<rparr>"
    by (simp only: setStats.simps initialStats_def)
  have s: "squashStats (fetchData initialState rows) = setStats initialStats []"
    if no: "\<forall>row \<in> set rows. rWorkoutType row \<noteq> JStr ''Squash''"
  proof (cases "processRows rows")
    case (Inl e)
    then show ?thesis by (simp add: fetchData_Inl initialState_def)
  next
    case (Inr pd)
    then show ?thesis
      by (simp add: fetchData_Inr ofType_empty [OF Inr no] initialState_def)
  qed
  have h: "hikingStats (fetchData initialState rows) = setStats initialStats []"
    if no: "\<forall>row \<in> set rows. rWorkoutType row \<noteq> JStr ''Hiking''"
  proof (cases "processRows rows")
    case (Inl e)
    then show ?thesis by (simp add: fetchData_Inl initialState_def)
  next
    case (Inr pd)
    then show ?thesis
      by (simp add: fetchData_Inr ofType_empty [OF Inr no] initialState_def)
  qed
  from f z s h show ?thesis by blast
qed

theorem empty_category_zero_state_witness:
  "rWorkoutType goodRow \<noteq> JStr ''Hiking''
   \<and> hikingStats (fetchData initialState [goodRow]) =
       \<lparr> totalSessions = 0, totalDuration = ''0h 0m'', avgCalories = Fin 0,
         statsMaxHeartRate = Fin 0 \<rparr>"
proof -
  have t: "rWorkoutType goodRow \<noteq> JStr ''Hiking''"
    by (simp add: goodRow_def exampleRow_def)
  then have b: "\<forall>row \<in> set [goodRow]. rWorkoutType row \<noteq> JStr ''Hiking''" by simp
  from empty_category_zero_state [of "[goodRow]"] b
  have "hikingStats (fetchData initialState [goodRow]) =
       \<lparr> totalSessions = 0, totalDuration = ''0h 0m'', avgCalories = Fin 0,
         statsMaxHeartRate = Fin 0 \<rparr>"
    by metis
  with t show ?thesis by simp
qed

text \<open>
  C7: a row whose workout type is neither Squash nor Hiking is dropped before anything
  else is done with it: the loaded state is the same with the row and without it (data,
  series and both statistics), and every record of the loaded data is a Squash or a
  Hiking record.
\<close>

theorem unconfigured_rows_dropped:
  "(rWorkoutType row \<noteq> JStr ''Squash'' \<and> rWorkoutType row \<noteq> JStr ''Hiking'' \<longrightarrow>
      fetchData st (rows1 @ row # rows2) = fetchData st (rows1 @ rows2))
   \<and> (r \<in> set (data (fetchData initialState rows)) \<longrightarrow>
      workoutType r = JStr ''Squash'' \<or> workoutType r = JStr ''Hiking'')"
proof (intro conjI impI)
  assume "rWorkoutType row \<noteq> JStr ''Squash'' \<and> rWorkoutType row \<noteq> JStr ''Hiking''"
  then have "\<not> isConfigured row" by (simp add: isConfigured_def)
  then show "fetchData st (rows1 @ row # rows2) = fetchData st (rows1 @ rows2)"
    by (simp add: fetchData_def processRows_drop)
next
  assume r: "r \<in> set (data (fetchData initialState rows))"
  show "workoutType r = JStr ''Squash'' \<or> workoutType r = JStr ''Hiking''"
  proof (cases "processRows rows")
    case (Inl e)
    with r show ?thesis by (simp add: fetchData_Inl initialState_def)
  next
    case (Inr pd)
    with r have "r \<in> set pd" by (simp add: fetchData_Inr)
    then show ?thesis by (rule processRows_configured [OF Inr])
  qed
qed

theorem unconfigured_rows_dropped_witness:
  "rWorkoutType runningRow \<noteq> JStr ''Squash'' \<and> rWorkoutType runningRow \<noteq> JStr ''Hiking''
   \<and> fetchData initialState ([goodRow] @ runningRow # []) = fetchData initialState ([goodRow] @ [])
   \<and> goodRecord \<in> set (data (fetchData initialState [goodRow]))
   \<and> workoutType goodRecord = JStr ''Squash''"
proof -
  have t: "rWorkoutType runningRow \<noteq> JStr ''Squash'' \<and> rWorkoutType runningRow \<noteq> JStr ''Hiking''"
    by (simp add: runningRow_def exampleRow_def)
  have m: "goodRecord \<in> set (data (fetchData initialState [goodRow]))"
    by (simp add: data_goodRow)
  have w: "workoutType goodRecord = JStr ''Squash''"
    by (simp add: goodRecord_def)
  from unconfigured_rows_dropped [of runningRow initialState "[goodRow]" "[]" goodRecord "[goodRow]"] t m w
  show ?thesis by blast
qed

text \<open>
  C10: when a batch is processed without an exception, every record of the processed
  sequence is a Squash or a Hiking record, the processed sequence is the published data,
  and the session counts of Squash and of Hiking add up to its length.
\<close>

theorem category_partition:
  "processRows rows = Inr processedData \<Longrightarrow>
   (\<forall>r \<in> set processedData. workoutType r = JStr ''Squash'' \<or> workoutType r = JStr ''Hiking'')
   \<and> data (fetchData initialState rows) = processedData
   \<and> totalSessions (squashStats (fetchData initialState rows))
       + totalSessions (hikingStats (fetchData initialState rows)) = length processedData"
proof -
  assume pr: "processRows rows = Inr processedData"
  have conf: "\<forall>r \<in> set processedData.
      workoutType r = JStr ''Squash'' \<or> workoutType r = JStr ''Hiking''"
    using processRows_configured [OF pr] by blast
  have "filter (\<lambda>r. workoutType r = JStr ''Hiking'') processedData
        = filter (\<lambda>r. \<not> workoutType r = JStr ''Squash'') processedData"
    using conf by (intro filter_cong) auto
  then have "length (ofType ''Squash'' processedData) + length (ofType ''Hiking'' processedData)
             = length processedData"
    by (simp add: ofType_def sum_length_filter_compl)
  then show ?thesis
    using conf by (simp add: fetchData_Inr [OF pr] initialState_def totalSessions_setStats)
qed

theorem category_partition_witness:
  "processRows batchMarch = Inr (data (fetchData initialState batchMarch))
   \<and> totalSessions (squashStats (fetchData initialState batchMarch)) = 2
   \<and> totalSessions (hikingStats (fetchData initialState batchMarch)) = 1
   \<and> totalSessions (squashStats (fetchData initialState batchMarch))
       + totalSessions (hikingStats (fetchData initialState batchMarch))
       = length (data (fetchData initialState batchMarch))"
proof -
  have s: "totalSessions (squashStats (fetchData initialState batchMarch)) = 2"
    by code_simp
  have h: "totalSessions (hikingStats (fetchData initialState batchMarch)) = 1"
    by code_simp
  from category_partition [OF processRows_batchMarch] processRows_batchMarch s h
  show ?thesis by blast
qed

end
